theory Spec2Isabelle
  imports Complex_Main
begin

section \<open>Arrays\<close>

text \<open>
  A numpy array (and the torch tensor sharing its memory) is its shape together with its
  elements in row-major order.  Elements are real numbers: the rounding and the overflow
  of float32 are not part of the model, so the model says which operations are applied to
  which elements, and nothing about the accuracy of their results.  \<open>wf_ndarray\<close> is the
  invariant every numpy array satisfies.
\<close>

record ndarray =
  shape :: "nat list"
  data :: "real list"

definition wf_ndarray :: "ndarray \<Rightarrow> bool" where
  "wf_ndarray d = (length (data d) = prod_list (shape d))"

text \<open>The \<open>b\<close> consecutive blocks of \<open>m\<close> elements: the examples of a batch.\<close>

fun chunks :: "nat \<Rightarrow> nat \<Rightarrow> 'a list \<Rightarrow> 'a list list" where
  "chunks 0 m xs = []"
| "chunks (Suc b) m xs = take m xs # chunks b m (drop m xs)"

definition examples :: "ndarray \<Rightarrow> real list list" where
  "examples d = chunks (hd (shape d)) (prod_list (tl (shape d))) (data d)"

text \<open>\<open>np.sqrt(np.sum(c ** 2))\<close> of one example.\<close>

definition l2_norm :: "real list \<Rightarrow> real" where
  "l2_norm c = sqrt (\<Sum>x\<leftarrow>c. x\<^sup>2)"

definition guard_eps :: real where
  "guard_eps = 1 / 10 ^ 16"

text \<open>
  \<open>d /= (np.sqrt(np.sum(d ** 2, axis=(1, ..., r - 1))).reshape((-1, 1, ..., 1)) + 1e-16)\<close>:
  the reduction leaves one norm per example, the reshape and the broadcast divide every
  element of an example by that example's guarded norm.
\<close>

definition div_by_norms :: "ndarray \<Rightarrow> ndarray" where
  "div_by_norms d =
     d\<lparr>data := concat (map (\<lambda>c. map (\<lambda>x. x / (l2_norm c + guard_eps)) c) (examples d))\<rparr>"

text \<open>
  \<open>VAT._l2_normalize\<close> (vat.py, lines 116-123).  The source has an \<open>if\<close> for rank 4, an
  \<open>elif\<close> for rank 3 and no \<open>else\<close>; no path raises.  The argument is always a fresh tensor
  (\<open>normal_()\<close> or \<open>grad.data.clone()\<close>), so the in-place division is modelled by the
  returned value.
\<close>

definition l2_normalize :: "ndarray \<Rightarrow> ndarray" where
  "l2_normalize d =
     (if length (shape d) = 4 then div_by_norms d
      else if length (shape d) = 3 then div_by_norms d
      else d)"


section \<open>Errors\<close>

text \<open>The exceptions the modelled code can raise, as values.\<close>

datatype error =
    AssertionError string "int list"
  | ZeroDivisionError
  | PyException string
  | KeyError string
  | ValueError
  | TypeError
  | AttributeError
  | NotADirectoryError
  | FileNotFoundError
  | LoadError string

section \<open>Softmax, KL divergence and entropy\<close>

text \<open>
  Logits are a batch of rows, one row of class scores per example (\<open>dim=0\<close> is the batch,
  \<open>dim=1\<close> the classes).  \<open>F.softmax\<close> and \<open>F.log_softmax\<close> are modelled by their
  mathematical definitions over the reals; the rounding of the float32 results, which
  decides the sign of a divergence close to zero, is not part of the model.
\<close>

type_synonym logits = "real list list"

definition softmax :: "real list \<Rightarrow> real list" where
  "softmax x = map (\<lambda>v. exp v / (\<Sum>u\<leftarrow>x. exp u)) x"

definition log_softmax :: "real list \<Rightarrow> real list" where
  "log_softmax x = map (\<lambda>v. v - ln (\<Sum>u\<leftarrow>x. exp u)) x"

text \<open>Elementwise product of two batches of the same shape (the only case that occurs:
  both factors come from logits of one batch, or from two outputs of the same network).\<close>

definition mul :: "logits \<Rightarrow> logits \<Rightarrow> logits" where
  "mul a b = map2 (\<lambda>r s. map2 (*) r s) a b"

text \<open>\<open>.sum(dim=1)\<close> and \<open>.mean(dim=0)\<close>.  On an empty batch torch's mean is NaN, which
  the reals do not have: the division below is then HOL's \<open>0 / 0 = 0\<close>, and \<open>mean_dim0\<close>
  stands for the code on non-empty batches only.\<close>

definition sum_dim1 :: "logits \<Rightarrow> real list" where
  "sum_dim1 a = map sum_list a"

definition mean_dim0 :: "real list \<Rightarrow> real" where
  "mean_dim0 xs = sum_list xs / real (length xs)"

text \<open>\<open>VAT.kl_div_with_logit\<close> (vat.py, lines 125-134).\<close>

definition kl_div_with_logit :: "logits \<Rightarrow> logits \<Rightarrow> real" where
  "kl_div_with_logit q_logit p_logit =
     (let q = map softmax q_logit;
          logq = map log_softmax q_logit;
          logp = map log_softmax p_logit;
          qlogq = mean_dim0 (sum_dim1 (mul q logq));
          qlogp = mean_dim0 (sum_dim1 (mul q logp))
      in qlogq - qlogp)"

text \<open>\<open>VAT.entropy_loss\<close> (vat.py, lines 136-138).\<close>

definition entropy_loss :: "logits \<Rightarrow> real" where
  "entropy_loss ul_y =
     (let p = map softmax ul_y
      in - mean_dim0 (sum_dim1 (mul p (map log_softmax ul_y))))"

section \<open>The unsupervised warmup coefficient\<close>

text \<open>\<open>np.clip(x, a_min, a_max)\<close> is \<open>np.minimum(a_max, np.maximum(x, a_min))\<close>.\<close>

definition np_clip :: "real \<Rightarrow> real \<Rightarrow> real \<Rightarrow> real" where
  "np_clip x a_min a_max = min a_max (max x a_min)"

text \<open>
  Line 65 of vat.py:
  \<open>np.clip(self.it / (self.unsup_warm_up * self.num_train_iter), a_min=0.0, a_max=1.0)\<close>.
  The counter and the budget are Python ints, the warmup fraction a float; dividing by a
  zero product raises \<open>ZeroDivisionError\<close>.
\<close>

definition unsup_warmup_coef :: "real \<Rightarrow> int \<Rightarrow> int \<Rightarrow> error + real" where
  "unsup_warmup_coef w n i =
     (if w * real_of_int n = 0 then Inl ZeroDivisionError
      else Inr (np_clip (real_of_int i / (w * real_of_int n)) 0 1))"

text \<open>The clip of the specification, written from its words: below the lower bound the
  lower bound, above the upper bound the upper bound, the value itself in between.\<close>

definition spec_clip :: "real \<Rightarrow> real \<Rightarrow> real \<Rightarrow> real" where
  "spec_clip x lo hi = (if x < lo then lo else if hi < x then hi else x)"


section \<open>Virtual adversarial training\<close>

text \<open>
  What the network receives: a tensor, or (for text models) a dictionary of named tensors.
\<close>

datatype batch = TensorBatch ndarray | DictBatch "(string \<times> ndarray) list"

text \<open>\<open>k * d\<close> and \<open>a + b\<close> on tensors.  In \<open>vat_loss\<close> both operands of a sum have the same
  shape: the perturbation is created with the size of its target, and a gradient has the
  shape of its leaf.\<close>

definition scale :: "real \<Rightarrow> ndarray \<Rightarrow> ndarray" where
  "scale k d = d\<lparr>data := map (\<lambda>x. k * x) (data d)\<rparr>"

definition tensor_add :: "ndarray \<Rightarrow> ndarray \<Rightarrow> ndarray" where
  "tensor_add a b = a\<lparr>data := map2 (+) (data a) (data b)\<rparr>"

text \<open>
  The \<open>.grad\<close> buffers of the network's parameters, one slot per parameter: \<open>None\<close> before
  the first backward pass.  A backward pass adds its contribution to every slot;
  \<open>model.zero_grad()\<close> zeroes every buffer that exists.
\<close>

type_synonym pgrads = "real list option list"

definition accumulate_grads :: "pgrads \<Rightarrow> real list list \<Rightarrow> pgrads" where
  "accumulate_grads pg contrib =
     map2 (\<lambda>slot g. case slot of None \<Rightarrow> Some g | Some a \<Rightarrow> Some (map2 (+) a g)) pg contrib"

definition zero_grad :: "pgrads \<Rightarrow> pgrads" where
  "zero_grad pg = map (map_option (map (\<lambda>_. 0))) pg"

definition grads_cleared :: "pgrads \<Rightarrow> bool" where
  "grads_cleared pg = list_all (\<lambda>slot. case slot of None \<Rightarrow> True | Some g \<Rightarrow> list_all (\<lambda>v. v = 0) g) pg"

text \<open>
  The collaborators of the algorithm that are not part of vat.py, as parameters: the
  network's forward passes for given weights \<open>'w\<close>, the supervised loss \<open>ce_loss\<close>, the
  automatic differentiation of a scalar loss at a leaf tensor (the gradient with respect
  to the leaf, and the contributions to the parameters' gradient buffers, one for each
  parameter), and the normal sampler.  \<open>parameter_update\<close> of the algorithm base class is
  not modelled: \<open>train_step\<close> below returns the loss it hands to it.
\<close>

record 'w engine =
  fwd :: "'w \<Rightarrow> batch \<Rightarrow> logits"
  fwd_embed :: "'w \<Rightarrow> batch \<Rightarrow> ndarray \<times> logits"
  ce_loss :: "logits \<Rightarrow> int list \<Rightarrow> real"
  backward :: "'w \<Rightarrow> (ndarray \<Rightarrow> real) \<Rightarrow> ndarray \<Rightarrow> real list \<times> real list list"
  normal :: "nat list \<Rightarrow> real list"

text \<open>
  The network input for a perturbation \<open>r\<close>: \<open>ul_x + r\<close>, or with \<open>vat_embed\<close> the dictionary
  \<open>{'attention_mask': ul_x['attention_mask'], 'inputs_embeds': ul_x_embed + r}\<close>.
  \<open>TypeError\<close> stands for Python's failure on an operand of the wrong kind (a dictionary
  where a tensor is added, a tensor indexed by a string, \<open>None\<close> for the embedding).
\<close>

definition probe_input :: "bool \<Rightarrow> batch \<Rightarrow> ndarray option \<Rightarrow> error + (ndarray \<Rightarrow> batch)" where
  "probe_input vat_embed ul_x ul_x_embed =
     (if vat_embed then
        (case ul_x of
           TensorBatch t \<Rightarrow> Inl TypeError
         | DictBatch kv \<Rightarrow>
             (case map_of kv ''attention_mask'' of
                None \<Rightarrow> Inl (KeyError ''attention_mask'')
              | Some m \<Rightarrow>
                  (case ul_x_embed of
                     None \<Rightarrow> Inl TypeError
                   | Some e \<Rightarrow>
                       Inr (\<lambda>r. DictBatch [(''attention_mask'', m),
                                            (''inputs_embeds'', tensor_add e r)]))))
      else
        (case ul_x of
           TensorBatch t \<Rightarrow> Inr (\<lambda>r. TensorBatch (tensor_add t r))
         | DictBatch kv \<Rightarrow> Inl TypeError))"

text \<open>
  One round of the power iteration, the body of the loop at lines 86-100 of vat.py, on
  the pair of the perturbation \<open>d\<close> and the parameters' gradient buffers.
\<close>

definition vat_round ::
  "'w engine \<Rightarrow> 'w \<Rightarrow> batch \<Rightarrow> logits \<Rightarrow> real \<Rightarrow> ndarray option \<Rightarrow> bool
     \<Rightarrow> ndarray \<times> pgrads \<Rightarrow> error + ndarray \<times> pgrads" where
  "vat_round E w ul_x ul_y xi ul_x_embed vat_embed s =
     (case s of (d0, pg) \<Rightarrow>
        let d = scale xi (l2_normalize d0) in
        (case probe_input vat_embed ul_x ul_x_embed of
           Inl e \<Rightarrow> Inl e
         | Inr mk \<Rightarrow>
             let delta_kl = (\<lambda>r. kl_div_with_logit ul_y (fwd E w (mk r)));
                 (g, contrib) = backward E w delta_kl d;
                 pg1 = accumulate_grads pg contrib;
                 d' = d\<lparr>data := g\<rparr>
             in Inr (d', zero_grad pg1)))"

primrec vat_rounds ::
  "nat \<Rightarrow> 'w engine \<Rightarrow> 'w \<Rightarrow> batch \<Rightarrow> logits \<Rightarrow> real \<Rightarrow> ndarray option \<Rightarrow> bool
     \<Rightarrow> ndarray \<times> pgrads \<Rightarrow> error + ndarray \<times> pgrads" where
  "vat_rounds 0 E w ul_x ul_y xi ul_x_embed vat_embed s = Inr s"
| "vat_rounds (Suc n) E w ul_x ul_y xi ul_x_embed vat_embed s =
     (case vat_round E w ul_x ul_y xi ul_x_embed vat_embed s of
        Inl e \<Rightarrow> Inl e
      | Inr s' \<Rightarrow> vat_rounds n E w ul_x ul_y xi ul_x_embed vat_embed s')"

text \<open>The size of the perturbation target: \<open>ul_x_embed.size()\<close> or \<open>ul_x.size()\<close>.\<close>

definition target_size :: "bool \<Rightarrow> batch \<Rightarrow> ndarray option \<Rightarrow> error + nat list" where
  "target_size vat_embed ul_x ul_x_embed =
     (if vat_embed then (case ul_x_embed of None \<Rightarrow> Inl TypeError | Some e \<Rightarrow> Inr (shape e))
      else (case ul_x of TensorBatch t \<Rightarrow> Inr (shape t) | DictBatch kv \<Rightarrow> Inl TypeError))"

text \<open>
  \<open>VAT.vat_loss\<close> (vat.py, lines 79-114).  It returns the adversarial loss; the gradient
  buffers it leaves behind are returned with it.
\<close>

definition vat_loss ::
  "'w engine \<Rightarrow> 'w \<Rightarrow> pgrads \<Rightarrow> batch \<Rightarrow> logits \<Rightarrow> real \<Rightarrow> real \<Rightarrow> nat \<Rightarrow> ndarray option \<Rightarrow> bool
     \<Rightarrow> error + real \<times> pgrads" where
  "vat_loss E w pg ul_x ul_y xi eps num_iters ul_x_embed vat_embed =
     (case target_size vat_embed ul_x ul_x_embed of
        Inl e \<Rightarrow> Inl e
      | Inr sz \<Rightarrow>
          (case vat_rounds num_iters E w ul_x ul_y xi ul_x_embed vat_embed
                  (\<lparr>shape = sz, data = normal E sz\<rparr>, pg) of
             Inl e \<Rightarrow> Inl e
           | Inr (d, pg') \<Rightarrow>
               let r_adv = scale eps (l2_normalize d) in
               (case probe_input vat_embed ul_x ul_x_embed of
                  Inl e \<Rightarrow> Inl e
                | Inr mk \<Rightarrow> Inr (kl_div_with_logit ul_y (fwd E w (mk r_adv)), pg'))))"

text \<open>
  The fields of the algorithm object that \<open>train_step\<close> reads or writes.
\<close>

record 'w vat =
  model :: 'w
  param_grads :: pgrads
  bn_frozen :: bool
  it :: int
  num_train_iter :: int
  unsup_warm_up :: real
  vat_eps :: real
  vat_embed :: bool
  lambda_u :: real
  lambda_ent :: real

text \<open>
  \<open>VAT.train_step\<close> (vat.py, lines 46-77).  \<open>vat_loss\<close> is called with its defaults
  \<open>xi = 1e-6\<close> and \<open>num_iters = 1\<close>.  The result is the dictionary of scalars, the total loss
  handed to \<open>parameter_update\<close>, and the algorithm object before that update.
\<close>

definition train_step ::
  "'w engine \<Rightarrow> 'w vat \<Rightarrow> batch \<Rightarrow> int list \<Rightarrow> batch
     \<Rightarrow> error + (string \<times> real) list \<times> real \<times> 'w vat" where
  "train_step E self x_lb y_lb x_ulb_w =
     (let logits_x_lb = fwd E (model self) x_lb;
          sup_loss = ce_loss E logits_x_lb y_lb;
          self1 = self\<lparr>bn_frozen := True\<rparr>;
          (ul_x_embed, ul_y) =
             (if vat_embed self
              then (case fwd_embed E (model self) x_ulb_w of (e, y) \<Rightarrow> (Some e, y))
              else (None, fwd E (model self) x_ulb_w))
      in
      (case vat_loss E (model self) (param_grads self1) x_ulb_w ul_y (1 / 10 ^ 6)
              (vat_eps self) 1 ul_x_embed (vat_embed self) of
         Inl e \<Rightarrow> Inl e
       | Inr (unsup_loss, pg) \<Rightarrow>
           let self2 = self1\<lparr>param_grads := pg, bn_frozen := False\<rparr>;
               loss_entmin = entropy_loss ul_y
           in
           (case unsup_warmup_coef (unsup_warm_up self) (num_train_iter self) (it self) of
              Inl e \<Rightarrow> Inl e
            | Inr unsup_warmup \<Rightarrow>
                let total_loss = sup_loss + lambda_u self * unsup_loss * unsup_warmup
                                  + lambda_ent self * loss_entmin
                in Inr ([(''train/sup_loss'', sup_loss),
                         (''train/unsup_loss'', unsup_loss),
                         (''train/loss_entmin'', loss_entmin),
                         (''train/total_loss'', total_loss)], total_loss, self2))))"


section \<open>The launcher: train.py\<close>

subsection \<open>Arguments, events and the world\<close>

text \<open>\<open>args.gpu\<close> is the string \<open>'None'\<close> (from a configuration file), \<open>None\<close>, or a device index.\<close>

datatype gpu_arg = GpuStrNone | GpuNone | GpuId int

text \<open>The attributes of the \<open>args\<close> namespace that \<open>main\<close> and \<open>main_worker\<close> read or write.\<close>

record args =
  save_dir :: string
  save_name :: string
  resume :: bool
  load_path :: "string option"
  overwrite :: bool
  epoch :: int
  num_train_iter :: int
  seed :: "int option"
  gpu :: gpu_arg
  dist_url :: string
  dist_backend :: string
  world_size :: int
  rank :: int
  multiprocessing_distributed :: bool
  distributed :: bool
  batch_size :: int
  uratio :: int
  eval_batch_size :: int
  num_workers :: int
  algorithm :: string
  ulb_dest_len :: nat
  lb_dest_len :: nat

text \<open>A formatted message is its template and the values filled in.\<close>

datatype fmt_arg = AStr string | AInt int | AGpu gpu_arg | ANone | AOpaque

text \<open>The calls with an effect outside the process's own variables, in program order.\<close>

datatype event =
    Rmtree string
  | Warn string
  | DeviceCount
  | Spawn nat int
  | Seed int
  | InitProcessGroup string string int int
  | TBLogCreate string
  | GetLogger string string string
  | LogInfo string "fmt_arg list"
  | Barrier
  | GetDataset
  | GetAlgorithm
  | SetOptimizer
  | SetDevice gpu_arg
  | ToCuda gpu_arg
  | WrapDistributed "gpu_arg" bool
  | WrapDataParallel
  | DataLoader string int int
  | SetDataLoader
  | LoadModel string
  | Warmup
  | Train int
  | Finetune
  | SaveModel string string
  | LogWarning string "fmt_arg list"

datatype node = File | Dir

text \<open>The file system (paths as written, no links) and the events so far.\<close>

record world =
  fs :: "string \<rightharpoonup> node"
  trace :: "event list"

definition emit :: "event \<Rightarrow> world \<Rightarrow> world" where
  "emit ev w = w\<lparr>trace := trace w @ [ev]\<rparr>"

text \<open>
  What the process finds around it and the collaborators outside train.py, as parameters.
  \<open>'a\<close> is the algorithm object; \<open>iteration\<close> reads its counter \<open>it\<close>.  \<open>load_model\<close> may fail
  after it has changed the object, so it returns the object together with the exception,
  if any.
\<close>

record 'a env =
  environ :: "string \<rightharpoonup> string"
  int_of_str :: "string \<Rightarrow> int option"
  abspath :: "string \<Rightarrow> string"
  device_count :: nat
  is_available :: bool
  train_lb_len :: nat
  train_ulb_len :: "nat option"
  has_test :: bool
  get_algorithm :: "args \<Rightarrow> 'a"
  iteration :: "'a \<Rightarrow> int"
  load_model :: "string \<Rightarrow> 'a \<Rightarrow> error option \<times> 'a"
  has_warmup :: bool
  warmup :: "'a \<Rightarrow> 'a"
  train :: "'a \<Rightarrow> (string \<times> real) list \<times> 'a"
  has_finetune :: bool
  finetune :: "'a \<Rightarrow> 'a"

subsection \<open>Paths and the file system\<close>

text \<open>\<open>os.path.join\<close> of two components (posixpath).\<close>

definition path_join :: "string \<Rightarrow> string \<Rightarrow> string" where
  "path_join a b =
     (if b \<noteq> [] \<and> hd b = CHR ''/'' then b
      else if a = [] \<or> last a = CHR ''/'' then a @ b
      else a @ ''/'' @ b)"

definition path_exists :: "world \<Rightarrow> string \<Rightarrow> bool" where
  "path_exists w p = (fs w p \<noteq> None)"

text \<open>\<open>q\<close> is \<open>p\<close> or lies below the directory \<open>p\<close>.\<close>

definition in_tree :: "string \<Rightarrow> string \<Rightarrow> bool" where
  "in_tree p q = (q = p \<or> take (length p + 1) q = p @ ''/'')"

text \<open>\<open>shutil.rmtree\<close>: deletes the directory and everything below it; refuses a path that
  is not a directory.\<close>

definition rmtree :: "string \<Rightarrow> world \<Rightarrow> (error + unit) \<times> world" where
  "rmtree p w =
     (case fs w p of
        None \<Rightarrow> (Inl FileNotFoundError, w)
      | Some File \<Rightarrow> (Inl NotADirectoryError, w)
      | Some Dir \<Rightarrow>
          (Inr (), emit (Rmtree p) (w\<lparr>fs := (\<lambda>q. if in_tree p q then None else fs w q)\<rparr>)))"

text \<open>\<open>int(os.environ[name])\<close>.\<close>

definition environ_int :: "'a env \<Rightarrow> string \<Rightarrow> error + int" where
  "environ_int E name =
     (case environ E name of
        None \<Rightarrow> Inl (KeyError name)
      | Some s \<Rightarrow> (case int_of_str E s of None \<Rightarrow> Inl ValueError | Some n \<Rightarrow> Inr n))"

text \<open>\<open>int(a / b)\<close> on Python ints: true division, then truncation towards zero (the
  rounding of the float quotient is not modelled).\<close>

definition int_truediv :: "int \<Rightarrow> int \<Rightarrow> error + int" where
  "int_truediv a b =
     (if b = 0 then Inl ZeroDivisionError else Inr (sgn a * sgn b * (\<bar>a\<bar> div \<bar>b\<bar>)))"


subsection \<open>main_worker\<close>

text \<open>Lines 93-97: the global rank of a distributed worker.\<close>

definition worker_rank :: "'a env \<Rightarrow> gpu_arg \<Rightarrow> nat \<Rightarrow> args \<Rightarrow> error + int" where
  "worker_rank E g ngpus_per_node a =
     (case (if dist_url a = ''env://'' \<and> rank a = - 1 then environ_int E ''RANK''
            else Inr (rank a)) of
        Inl e \<Rightarrow> Inl e
      | Inr r \<Rightarrow>
          if multiprocessing_distributed a
          then (case g of GpuId i \<Rightarrow> Inr (r * int ngpus_per_node + i) | _ \<Rightarrow> Inl TypeError)
          else Inr r)"

text \<open>Lines 84-101: seeding and the process group.\<close>

definition worker_group ::
  "'a env \<Rightarrow> gpu_arg \<Rightarrow> nat \<Rightarrow> args \<Rightarrow> world \<Rightarrow> (error + args) \<times> world" where
  "worker_group E g ngpus_per_node a w0 =
     (case seed a of
        None \<Rightarrow> (Inl (AssertionError [] []), w0)
      | Some s \<Rightarrow>
          let w1 = emit (Seed s) w0 in
          if distributed a
          then (case worker_rank E g ngpus_per_node a of
                  Inl e \<Rightarrow> (Inl e, w1)
                | Inr r \<Rightarrow>
                    (Inr (a\<lparr>rank := r\<rparr>),
                     emit (InitProcessGroup (dist_backend a) (dist_url a) (world_size a) r) w1))
          else (Inr a, w1))"

text \<open>Lines 103-112: the save path and the logger.  \<open>args.rank % ngpus_per_node\<close> raises
  on a machine without devices.\<close>

definition worker_logger :: "nat \<Rightarrow> args \<Rightarrow> world \<Rightarrow> (error + unit) \<times> world" where
  "worker_logger ngpus_per_node a w =
     (if ngpus_per_node = 0 then (Inl ZeroDivisionError, w)
      else
        let save_path = path_join (save_dir a) (save_name a);
            first = (rank a mod int ngpus_per_node = 0);
            w1 = (if first then emit (TBLogCreate save_path) w else w);
            logger_level = (if first then ''INFO'' else ''WARNING'')
        in (Inr (),
            emit (LogInfo ''Use GPU: {} for training'' [AGpu (gpu a)])
              (emit (GetLogger (save_name a) save_path logger_level) w1)))"

text \<open>Lines 114-137: the datasets between their barriers, the algorithm, its optimizer.\<close>

definition worker_dataset :: "'a env \<Rightarrow> args \<Rightarrow> world \<Rightarrow> (args \<times> 'a) \<times> world" where
  "worker_dataset E a w =
     (let w1 = (if rank a \<noteq> 0 \<and> distributed a then emit Barrier w else w);
          w2 = emit GetDataset w1;
          a1 = a\<lparr>ulb_dest_len := (case train_ulb_len E of None \<Rightarrow> 0 | Some n \<Rightarrow> n),
                 lb_dest_len := train_lb_len E\<rparr>;
          w3 = emit (LogInfo ''unlabeled data number: {}, labeled data number {}''
                       [AInt (int (ulb_dest_len a1)), AInt (int (lb_dest_len a1))]) w2;
          w4 = (if rank a1 = 0 \<and> distributed a1 then emit Barrier w3 else w3);
          alg = get_algorithm E a1
      in ((a1, alg),
          emit SetOptimizer
            (emit (LogInfo ''Number of Trainable Params: {}'' [AOpaque])
               (emit GetAlgorithm w4))))"

text \<open>Lines 81-137 together.\<close>

definition worker_init ::
  "'a env \<Rightarrow> gpu_arg \<Rightarrow> nat \<Rightarrow> args \<Rightarrow> world \<Rightarrow> (error + args \<times> 'a) \<times> world" where
  "worker_init E g ngpus_per_node a0 w0 =
     (case worker_group E g ngpus_per_node (a0\<lparr>gpu := g\<rparr>) w0 of
        (Inl e, w1) \<Rightarrow> (Inl e, w1)
      | (Inr a1, w1) \<Rightarrow>
          (case worker_logger ngpus_per_node a1 w1 of
             (Inl e, w2) \<Rightarrow> (Inl e, w2)
           | (Inr u, w2) \<Rightarrow>
               (case worker_dataset E a1 w2 of (st, w3) \<Rightarrow> (Inr st, w3))))"

text \<open>Lines 139-168: devices and the wrapping of the network (\<open>WrapDistributed\<close> stands
  for the conversion to synchronized batch norm, where the source has it, and for
  \<open>DistributedDataParallel\<close> with its \<open>find_unused_parameters\<close> flag).\<close>

definition worker_devices ::
  "'a env \<Rightarrow> nat \<Rightarrow> args \<Rightarrow> world \<Rightarrow> (error + args) \<times> world" where
  "worker_devices E ngpus_per_node a w =
     (if \<not> is_available E then (Inl (PyException ''ONLY GPU TRAINING IS SUPPORTED''), w)
      else
        (case (if distributed a then
                 (if gpu a \<noteq> GpuNone then
                    (let w1 = emit (SetDevice (gpu a)) w in
                     case int_truediv (batch_size a) (int ngpus_per_node) of
                       Inl e \<Rightarrow> (Inl e, w1)
                     | Inr b \<Rightarrow>
                         (Inr (a\<lparr>batch_size := b\<rparr>),
                          emit (WrapDistributed (gpu a)
                                  (algorithm a = ''simmatch'' \<or> algorithm a = ''crmatch''))
                            (emit (ToCuda (gpu a)) w1)))
                  else
                    (Inr a,
                     emit (WrapDistributed GpuNone
                             (algorithm a = ''simmatch'' \<or> algorithm a = ''crmatch''))
                       (emit (ToCuda GpuNone) w)))
               else if gpu a \<noteq> GpuNone then
                 (Inr a, emit (ToCuda (gpu a)) (emit (SetDevice (gpu a)) w))
               else (Inr a, emit (ToCuda GpuNone) (emit WrapDataParallel w))) of
           (Inl e, w') \<Rightarrow> (Inl e, w')
         | (Inr a', w') \<Rightarrow>
             (Inr a',
              emit (LogInfo ''Arguments: {}'' [AOpaque])
                (emit (LogInfo ''model_arch: {}'' [AOpaque]) w'))))"

text \<open>Lines 170-208: the data loaders, each with the batch size and the number of workers
  it is given.\<close>

definition worker_loaders :: "'a env \<Rightarrow> args \<Rightarrow> world \<Rightarrow> world" where
  "worker_loaders E a w =
     (let w1 = emit (DataLoader ''train_lb'' (batch_size a) (num_workers a)) w;
          w2 = emit (DataLoader ''train_ulb'' (batch_size a * uratio a) (2 * num_workers a)) w1;
          w3 = emit (DataLoader ''eval'' (eval_batch_size a) (num_workers a)) w2;
          w4 = (if has_test E
                then emit (DataLoader ''test'' (eval_batch_size a) (num_workers a)) w3
                else w3)
      in emit (LogInfo ''Create train and test data loaders'' []) (emit SetDataLoader w4))"

text \<open>Lines 210-218: resuming from a checkpoint.  \<open>os.path.exists(None)\<close> raises
  \<open>TypeError\<close>; the bare \<open>except\<close> catches whatever \<open>load_model\<close> raises.\<close>

definition worker_resume ::
  "'a env \<Rightarrow> args \<times> 'a \<Rightarrow> world \<Rightarrow> (error + args \<times> 'a) \<times> world" where
  "worker_resume E st w =
     (case st of (a, alg) \<Rightarrow>
        if resume a then
          (case load_path a of
             None \<Rightarrow> (Inl TypeError, w)
           | Some p \<Rightarrow>
               if path_exists w p then
                 (case load_model E p alg of
                    (None, alg') \<Rightarrow> (Inr (a, alg'), emit (LoadModel p) w)
                  | (Some e, alg') \<Rightarrow>
                      (Inr (a\<lparr>resume := False\<rparr>, alg'),
                       emit (LogInfo ''Fail to resume load path {}'' [AStr p])
                         (emit (LoadModel p) w)))
               else
                 (Inr (a, alg), emit (LogInfo ''Resume load path {} does not exist'' [AStr p]) w))
        else
          (Inr (a, alg),
           emit (LogInfo ''Resume load path {} does not exist''
                   [case load_path a of None \<Rightarrow> ANone | Some p \<Rightarrow> AStr p]) w))"

text \<open>Lines 220-240: the optional warmup, training, the optional finetuning, the final
  checkpoint.  The \<open>Train\<close> event records the iteration counter training starts from.\<close>

definition worker_run ::
  "'a env \<Rightarrow> nat \<Rightarrow> args \<times> 'a \<Rightarrow> world \<Rightarrow> (error + args \<times> 'a) \<times> world" where
  "worker_run E ngpus_per_node st w =
     (case st of (a, alg) \<Rightarrow>
        let (alg1, w1) = (if has_warmup E
                          then (warmup E alg, emit Warmup (emit (LogInfo ''Warmup stage'' []) w))
                          else (alg, w));
            w2 = emit (Train (iteration E alg1)) (emit (LogInfo ''Model training'' []) w1);
            (result, alg2) = train E alg1;
            w3 = foldl (\<lambda>v item. emit (LogInfo ''Model result - {} : {}''
                                            [AStr (fst item), AOpaque]) v) w2 result;
            (alg3, w4) = (if has_finetune E
                          then (finetune E alg2,
                                emit Finetune (emit (LogInfo ''Finetune stage'' []) w3))
                          else (alg2, w3))
        in
        if multiprocessing_distributed a \<and> ngpus_per_node = 0
        then (Inl ZeroDivisionError, w4)
        else
          let w5 = (if \<not> multiprocessing_distributed a
                       \<or> (multiprocessing_distributed a \<and> rank a mod int ngpus_per_node = 0)
                    then emit (SaveModel ''latest_model.pth''
                                 (path_join (save_dir a) (save_name a))) w4
                    else w4)
          in (Inr (a, alg3),
              emit (LogWarning ''GPU {} training is FINISHED'' [AInt (rank a)]) w5))"

text \<open>\<open>main_worker\<close> (train.py, lines 76-240).  It returns the final \<open>args\<close> and algorithm
  object, or the exception that ended it.\<close>

definition main_worker ::
  "'a env \<Rightarrow> gpu_arg \<Rightarrow> nat \<Rightarrow> args \<Rightarrow> world \<Rightarrow> (error + args \<times> 'a) \<times> world" where
  "main_worker E g ngpus_per_node a w =
     (case worker_init E g ngpus_per_node a w of
        (Inl e, w1) \<Rightarrow> (Inl e, w1)
      | (Inr (a1, alg), w1) \<Rightarrow>
          (case worker_devices E ngpus_per_node a1 w1 of
             (Inl e, w2) \<Rightarrow> (Inl e, w2)
           | (Inr a2, w2) \<Rightarrow>
               (case worker_resume E (a2, alg) (worker_loaders E a2 w2) of
                  (Inl e, w3) \<Rightarrow> (Inl e, w3)
                | (Inr st, w3) \<Rightarrow> worker_run E ngpus_per_node st w3)))"

subsection \<open>main\<close>

text \<open>Lines 30-31: the assertion.  \<open>%\<close> by zero raises before the comparison.\<close>

definition check_divisible :: "args \<Rightarrow> error + unit" where
  "check_divisible a =
     (if epoch a = 0 then Inl ZeroDivisionError
      else if num_train_iter a mod epoch a = 0 then Inr ()
      else Inl (AssertionError ''# total training iter. {} is not divisible by # epochs {}''
                  [num_train_iter a, epoch a]))"

text \<open>Lines 33-38: the save path.\<close>

definition prepare_save_path :: "args \<Rightarrow> world \<Rightarrow> (error + unit) \<times> world" where
  "prepare_save_path a w =
     (let save_path = path_join (save_dir a) (save_name a) in
      case (if path_exists w save_path \<and> overwrite a \<and> resume a = False
            then rmtree save_path w else (Inr (), w)) of
        (Inl e, w1) \<Rightarrow> (Inl e, w1)
      | (Inr u, w1) \<Rightarrow>
          if path_exists w1 save_path \<and> \<not> overwrite a
          then (Inl (PyException (''already existing model: '' @ save_path)), w1)
          else (Inr (), w1))"

text \<open>Lines 39-44: the load path of a resumed run.\<close>

definition check_resume :: "'a env \<Rightarrow> args \<Rightarrow> error + unit" where
  "check_resume E a =
     (if resume a then
        (case load_path a of
           None \<Rightarrow> Inl (PyException ''Resume of training requires --load_path in the args'')
         | Some p \<Rightarrow>
             if abspath E (path_join (save_dir a) (save_name a)) = abspath E p \<and> \<not> overwrite a
             then Inl (PyException (''Saving & Loading pathes are same. ''
                        @ replicate 28 CHR '' ''
                        @ ''If you want over-write, give --overwrite in the argument.''))
             else Inr ())
      else Inr ())"

text \<open>Lines 46-63: the warnings, the world size, the \<open>distributed\<close> flag.\<close>

definition configure :: "'a env \<Rightarrow> args \<Rightarrow> world \<Rightarrow> (error + args) \<times> world" where
  "configure E a w =
     (let w1 = (if seed a \<noteq> None
                then emit (Warn (''You have chosen to seed training. ''
                     @ ''This will turn on the CUDNN deterministic setting, ''
                     @ ''which can slow down your training considerably! ''
                     @ ''You may see unexpected behavior when restarting ''
                     @ ''from checkpoints.'')) w
                else w);
          a1 = (if gpu a = GpuStrNone then a\<lparr>gpu := GpuNone\<rparr> else a);
          w2 = (if gpu a1 \<noteq> GpuNone
                then emit (Warn (''You have chosen a specific GPU. This will completely ''
                     @ ''disable data parallelism.'')) w1
                else w1)
      in
      case (if dist_url a1 = ''env://'' \<and> world_size a1 = - 1
            then (case environ_int E ''WORLD_SIZE'' of
                    Inl e \<Rightarrow> Inl e
                  | Inr n \<Rightarrow> Inr (a1\<lparr>world_size := n\<rparr>))
            else Inr a1) of
        Inl e \<Rightarrow> (Inl e, w2)
      | Inr a2 \<Rightarrow>
          (Inr (a2\<lparr>distributed := (world_size a2 > 1 \<or> multiprocessing_distributed a2)\<rparr>), w2))"

text \<open>
  \<open>main\<close> (train.py, lines 24-73).  With \<open>multiprocessing_distributed\<close> the workers run in
  processes of their own: the model records the spawn, with the number of processes and
  the world size handed to them, and stops there.
\<close>

definition main :: "'a env \<Rightarrow> args \<Rightarrow> world \<Rightarrow> (error + unit) \<times> world" where
  "main E a w =
     (case check_divisible a of
        Inl e \<Rightarrow> (Inl e, w)
      | Inr u \<Rightarrow>
          (case prepare_save_path a w of
             (Inl e, w1) \<Rightarrow> (Inl e, w1)
           | (Inr u1, w1) \<Rightarrow>
               (case check_resume E a of
                  Inl e \<Rightarrow> (Inl e, w1)
                | Inr u2 \<Rightarrow>
                    (case configure E a w1 of
                       (Inl e, w2) \<Rightarrow> (Inl e, w2)
                     | (Inr a1, w2) \<Rightarrow>
                         let ngpus_per_node = device_count E;
                             w3 = emit DeviceCount w2
                         in
                         if multiprocessing_distributed a1
                         then (let a2 = a1\<lparr>world_size := int ngpus_per_node * world_size a1\<rparr>
                               in (Inr (), emit (Spawn ngpus_per_node (world_size a2)) w3))
                         else (case main_worker E (gpu a1) ngpus_per_node a1 w3 of
                                 (Inl e, w4) \<Rightarrow> (Inl e, w4)
                               | (Inr st, w4) \<Rightarrow> (Inr (), w4))))))"

text \<open>The defaults of the argument parser of train.py (lines 255-350), for the attributes
  of the model; \<open>distributed\<close> and the two lengths are set later by the program.\<close>

definition parser_defaults :: args where
  "parser_defaults =
     \<lparr>save_dir = ''./saved_models'', save_name = ''fixmatch'', resume = False,
      load_path = None, overwrite = True, epoch = 1024, num_train_iter = 2 ^ 20,
      seed = Some 1, gpu = GpuNone, dist_url = ''tcp://127.0.0.1:11111'',
      dist_backend = ''nccl'', world_size = 1, rank = 0,
      multiprocessing_distributed = False, distributed = False, batch_size = 4,
      uratio = 1, eval_batch_size = 1024, num_workers = 1, algorithm = ''fixmatch'',
      ulb_dest_len = 0, lb_dest_len = 0\<rparr>"


section \<open>Auxiliary definitions\<close>

text \<open>A small instance of the collaborators and of the algorithm object: a network with
  constant output on one example with two classes, one parameter with two entries.\<close>

definition demo_tensor :: ndarray where
  "demo_tensor = \<lparr>shape = [1, 1, 1], data = [0]\<rparr>"

definition demo_engine :: "unit engine" where
  "demo_engine =
     \<lparr>fwd = (\<lambda>w b. [[0, 0]]),
      fwd_embed = (\<lambda>w b. (demo_tensor, [[0, 0]])),
      ce_loss = (\<lambda>l y. 1),
      backward = (\<lambda>w f d. ([1], [[1, 1]])),
      normal = (\<lambda>sz. [1])\<rparr>"

definition demo_vat :: "unit vat" where
  "demo_vat =
     \<lparr>model = (), param_grads = [None], bn_frozen = False, it = 200, num_train_iter = 1000,
      unsup_warm_up = 4 / 10, vat_eps = 6, vat_embed = False, lambda_u = 1,
      lambda_ent = 6 / 100\<rparr>"

text \<open>The later world has the same files as the earlier one and a longer trace.\<close>

definition extends :: "world \<Rightarrow> world \<Rightarrow> bool" where
  "extends w w' = (fs w' = fs w \<and> (\<exists>rest. trace w' = trace w @ rest))"

text \<open>An instance of the surroundings of \<open>main\<close>: a machine with two devices, an algorithm
  object that is its own iteration counter, a checkpoint loader that fails on every path
  but \<open>good.pth\<close>, an existing save directory and a checkpoint file; and arguments for a
  distributed and for a resumed run.\<close>

definition demo_env :: "int env" where
  "demo_env =
     \<lparr>environ = (\<lambda>name. None),
      int_of_str = (\<lambda>s. None),
      abspath = (\<lambda>p. p),
      device_count = 2,
      is_available = True,
      train_lb_len = 40,
      train_ulb_len = Some 1000,
      has_test = False,
      get_algorithm = (\<lambda>a. 0),
      iteration = (\<lambda>alg. alg),
      load_model = (\<lambda>p alg. if p = ''good.pth'' then (None, 500) else (Some (LoadError p), alg)),
      has_warmup = False,
      warmup = (\<lambda>alg. alg),
      train = (\<lambda>alg. ([(''eval/top-1-acc'', 1 / 2)], alg)),
      has_finetune = False,
      finetune = (\<lambda>alg. alg)\<rparr>"


definition demo_world :: world where
  "demo_world =
     \<lparr>fs = [''./saved_models/fixmatch'' \<mapsto> Dir,
            ''./saved_models/fixmatch/latest_model.pth'' \<mapsto> File,
            ''bad.pth'' \<mapsto> File],
      trace = []\<rparr>"

definition dist_args :: args where
  "dist_args = parser_defaults\<lparr>gpu := GpuId 0, world_size := 2, distributed := True,
                                batch_size := 8, num_workers := 4\<rparr>"


section \<open>Properties of the normalization\<close>

lemma l2_norm_3_4: "l2_norm [3, 4] = 5"
proof -
  have "sqrt 25 = sqrt (5\<^sup>2)" by simp
  also have "\<dots> = 5" by (simp only: real_sqrt_abs abs_numeral)
  finally show ?thesis by (simp add: l2_norm_def)
qed

text \<open>
  C1.  A tensor of rank 2 is returned as it came: \<open>_l2_normalize\<close> raises nothing, and the
  example \<open>[3, 4]\<close> keeps its norm 5.
\<close>

theorem l2_normalize_rank2_silent:
  "l2_normalize \<lparr>shape = [1, 2], data = [3, 4]\<rparr> = \<lparr>shape = [1, 2], data = [3, 4]\<rparr>
   \<and> l2_norm (examples \<lparr>shape = [1, 2], data = [3, 4]\<rparr> ! 0) = 5"
  by (simp add: l2_normalize_def examples_def l2_norm_3_4)

section \<open>Properties of the warmup coefficient\<close>

text \<open>
  C2.  Whenever the product \<open>unsup_warm_up * num_train_iter\<close> is not zero, the coefficient
  computed in \<open>train_step\<close> is the specification's clip of
  \<open>it / (unsup_warm_up * num_train_iter)\<close> to \<open>[0, 1]\<close>, for every counter (so for those
  between 0 and the budget).  With the warmup fraction 0.4 (here the real number 2/5) and
  1000 iterations it is 0 at iteration 0, 1/2 at iteration 200 and 1 from iteration 400 on.
\<close>

theorem unsup_warmup_coef_clip:
  assumes "w * real_of_int n \<noteq> 0"
  shows "unsup_warmup_coef w n i = Inr (spec_clip (real_of_int i / (w * real_of_int n)) 0 1)
       \<and> unsup_warmup_coef (4 / 10) 1000 0 = Inr 0
       \<and> unsup_warmup_coef (4 / 10) 1000 200 = Inr (1 / 2)
       \<and> (\<forall>j\<ge>400. unsup_warmup_coef (4 / 10) 1000 j = Inr 1)"
proof -
  have clip: "np_clip x 0 1 = spec_clip x 0 1" for x
    by (simp add: np_clip_def spec_clip_def min_def max_def)
  have gen: "unsup_warmup_coef w n i = Inr (spec_clip (real_of_int i / (w * real_of_int n)) 0 1)"
    using assms by (simp add: unsup_warmup_coef_def clip)
  have c0: "unsup_warmup_coef (4 / 10) 1000 0 = Inr 0"
    by (simp add: unsup_warmup_coef_def np_clip_def)
  have c200: "unsup_warmup_coef (4 / 10) 1000 200 = Inr (1 / 2)"
    by (simp add: unsup_warmup_coef_def np_clip_def)
  have c400: "unsup_warmup_coef (4 / 10) 1000 j = Inr 1" if "400 \<le> j" for j
  proof -
    have "1 \<le> real_of_int j / 400" using that by simp
    then show ?thesis by (simp add: unsup_warmup_coef_def np_clip_def min_def max_def)
  qed
  from gen c0 c200 c400 show ?thesis by blast
qed

theorem unsup_warmup_coef_clip_witness:
  "unsup_warmup_coef (4 / 10) 1000 100 = Inr (1 / 4)
   \<and> unsup_warmup_coef (4 / 10) 1000 1000 = Inr 1"
proof -
  have h: "(4 / 10) * real_of_int 1000 \<noteq> 0" by simp
  have j: "(400::int) \<le> 1000" by simp
  from unsup_warmup_coef_clip[OF h, of 100] j show ?thesis
    by (auto simp: spec_clip_def)
qed

section \<open>Properties of the adversarial search and of the training step\<close>

lemma grads_cleared_zero_grad: "grads_cleared (zero_grad pg)"
  unfolding grads_cleared_def zero_grad_def list_all_iff
  by (auto split: option.splits)

lemma vat_round_result:
  assumes "probe_input ve ul_x ul_x_embed = Inr mk"
  shows "vat_round E w ul_x ul_y xi ul_x_embed ve (d0, pg) =
         Inr (\<lparr>shape = shape d0,
               data = fst (backward E w (\<lambda>r. kl_div_with_logit ul_y (fwd E w (mk r)))
                             (scale xi (l2_normalize d0)))\<rparr>,
              zero_grad (accumulate_grads pg
                (snd (backward E w (\<lambda>r. kl_div_with_logit ul_y (fwd E w (mk r)))
                             (scale xi (l2_normalize d0))))))"
proof -
  have "shape (l2_normalize d0) = shape d0"
    by (simp add: l2_normalize_def div_by_norms_def)
  then show ?thesis
    using assms by (simp add: vat_round_def Let_def scale_def split_def)
qed

lemma vat_rounds_snoc:
  "vat_rounds (Suc n) E w ul_x ul_y xi ul_x_embed ve s =
     (case vat_rounds n E w ul_x ul_y xi ul_x_embed ve s of
        Inl e \<Rightarrow> Inl e
      | Inr s' \<Rightarrow> vat_round E w ul_x ul_y xi ul_x_embed ve s')"
proof (induction n arbitrary: s)
  case 0
  show ?case by (simp split: sum.splits)
next
  case (Suc n)
  show ?case
  proof (cases "vat_round E w ul_x ul_y xi ul_x_embed ve s")
    case (Inl e)
    then show ?thesis by simp
  next
    case (Inr s1)
    have "vat_rounds (Suc (Suc n)) E w ul_x ul_y xi ul_x_embed ve s
          = vat_rounds (Suc n) E w ul_x ul_y xi ul_x_embed ve s1"
      by (subst vat_rounds.simps(2)) (simp add: Inr)
    also have "\<dots> = (case vat_rounds n E w ul_x ul_y xi ul_x_embed ve s1 of
        Inl e \<Rightarrow> Inl e
      | Inr s' \<Rightarrow> vat_round E w ul_x ul_y xi ul_x_embed ve s')"
      by (rule Suc)
    also have "vat_rounds n E w ul_x ul_y xi ul_x_embed ve s1
          = vat_rounds (Suc n) E w ul_x ul_y xi ul_x_embed ve s"
      by (simp add: Inr)
    finally show ?thesis .
  qed
qed

lemma vat_rounds_returns:
  assumes "probe_input ve ul_x ul_x_embed = Inr mk"
  shows "\<exists>s'. vat_rounds n E w ul_x ul_y xi ul_x_embed ve s = Inr s'"
proof (induction n arbitrary: s)
  case 0
  show ?case by simp
next
  case (Suc n)
  obtain d pg where s: "s = (d, pg)" by (cases s)
  show ?case using Suc[of "(_, _)"]
    by (simp add: s vat_round_result[OF assms])
qed

lemma target_size_of_probe:
  assumes "probe_input ve ul_x ul_x_embed = Inr mk"
  shows "\<exists>sz. target_size ve ul_x ul_x_embed = Inr sz"
  using assms
  by (auto simp: probe_input_def target_size_def split: if_splits batch.splits option.splits)

lemma vat_rounds_cleared:
  assumes "probe_input ve ul_x ul_x_embed = Inr mk" and "0 < n"
  shows "\<exists>d' pg'. vat_rounds n E w ul_x ul_y xi ul_x_embed ve s = Inr (d', pg')
           \<and> grads_cleared pg'"
proof -
  obtain m where n: "n = Suc m" using assms(2) by (cases n) auto
  from vat_rounds_returns[OF assms(1), of m E w ul_y xi s]
  obtain s0 where s0: "vat_rounds m E w ul_x ul_y xi ul_x_embed ve s = Inr s0" ..
  obtain d0 pg0 where p: "s0 = (d0, pg0)" by (cases s0)
  show ?thesis
    unfolding n vat_rounds_snoc
    by (simp add: s0 p vat_round_result[OF assms(1)] grads_cleared_zero_grad)
qed

lemma vat_loss_leaves_grads_cleared:
  assumes "probe_input ve ul_x ul_x_embed = Inr mk" and "0 < num_iters"
  shows "\<exists>loss pg'. vat_loss E w pg ul_x ul_y xi eps num_iters ul_x_embed ve = Inr (loss, pg')
           \<and> grads_cleared pg'"
proof -
  from target_size_of_probe[OF assms(1)]
  obtain sz where sz: "target_size ve ul_x ul_x_embed = Inr sz" ..
  from vat_rounds_cleared[OF assms, of E w ul_y xi "(\<lparr>shape = sz, data = normal E sz\<rparr>, pg)"]
  obtain d' pg' where
    r: "vat_rounds num_iters E w ul_x ul_y xi ul_x_embed ve
          (\<lparr>shape = sz, data = normal E sz\<rparr>, pg) = Inr (d', pg')"
    and c: "grads_cleared pg'" by blast
  show ?thesis using c by (simp add: vat_loss_def sz r assms(1) Let_def)
qed

text \<open>
  C6.  Whenever the network input can be built, a loop of \<open>num_iters \<ge> 1\<close> rounds returns,
  and its last round (so every round: round \<open>k\<close> is the last round of the loop of \<open>k\<close>
  rounds) starts from some perturbation \<open>d0\<close> and ends with a perturbation of the same shape
  whose elements are the gradient of \<open>KL(ul_y || y_hat)\<close> with respect to the perturbation,
  taken at \<open>xi * normalize(d0)\<close> (nothing else of \<open>d0\<close> remains), and with every existing
  gradient buffer of the parameters zeroed.  \<open>vat_loss\<close> as a whole then returns with
  every such buffer zeroed, which is the state the later parameter update starts from.
\<close>

theorem vat_round_gradient_and_zero_grad:
  assumes "probe_input ve ul_x ul_x_embed = Inr mk"
    and "0 < num_iters"
  shows "\<exists>d0 pg0 d' pg'.
           vat_rounds (num_iters - 1) E w ul_x ul_y xi ul_x_embed ve s = Inr (d0, pg0)
         \<and> vat_round E w ul_x ul_y xi ul_x_embed ve (d0, pg0) = Inr (d', pg')
         \<and> vat_rounds num_iters E w ul_x ul_y xi ul_x_embed ve s = Inr (d', pg')
         \<and> shape d' = shape d0
         \<and> data d' = fst (backward E w (\<lambda>r. kl_div_with_logit ul_y (fwd E w (mk r)))
                            (scale xi (l2_normalize d0)))
         \<and> grads_cleared pg'
         \<and> (\<exists>loss pg''. vat_loss E w pg ul_x ul_y xi eps num_iters ul_x_embed ve
                             = Inr (loss, pg'')
                          \<and> grads_cleared pg'')"
proof -
  obtain n where n: "num_iters = Suc n" using assms(2) by (cases num_iters) auto
  from vat_rounds_returns[OF assms(1), of n E w ul_y xi s]
  obtain s0 where s0: "vat_rounds n E w ul_x ul_y xi ul_x_embed ve s = Inr s0" ..
  obtain d0 pg0 where p: "s0 = (d0, pg0)" by (cases s0)
  let ?g = "backward E w (\<lambda>r. kl_div_with_logit ul_y (fwd E w (mk r)))
              (scale xi (l2_normalize d0))"
  let ?d' = "\<lparr>shape = shape d0, data = fst ?g\<rparr>"
  let ?pg' = "zero_grad (accumulate_grads pg0 (snd ?g))"
  have r: "vat_round E w ul_x ul_y xi ul_x_embed ve (d0, pg0) = Inr (?d', ?pg')"
    by (rule vat_round_result[OF assms(1)])
  have "vat_rounds num_iters E w ul_x ul_y xi ul_x_embed ve s = Inr (?d', ?pg')"
    unfolding n vat_rounds_snoc by (simp add: s0 p r)
  moreover have "grads_cleared ?pg'" by (rule grads_cleared_zero_grad)
  moreover have "\<exists>loss pg''. vat_loss E w pg ul_x ul_y xi eps num_iters ul_x_embed ve
                     = Inr (loss, pg'') \<and> grads_cleared pg''"
    using assms by (rule vat_loss_leaves_grads_cleared)
  ultimately show ?thesis
    using s0 p r n by (intro exI[of _ d0] exI[of _ pg0] exI[of _ ?d'] exI[of _ ?pg']) simp
qed

theorem vat_round_gradient_and_zero_grad_witness:
  "\<exists>d' pg'.
      vat_rounds 1 demo_engine () (TensorBatch demo_tensor) [[0, 0]] (1 / 10 ^ 6) None False
        (\<lparr>shape = [1, 1, 1], data = [1]\<rparr>, [None]) = Inr (d', pg')
    \<and> shape d' = [1, 1, 1] \<and> data d' = [1] \<and> grads_cleared pg'"
proof -
  have p: "probe_input False (TensorBatch demo_tensor) None
           = Inr (\<lambda>r. TensorBatch (tensor_add demo_tensor r))"
    by (simp add: probe_input_def)
  have n: "0 < (1::nat)" by simp
  from vat_round_gradient_and_zero_grad[OF p n, where E = demo_engine and w = "()"
      and ul_y = "[[0, 0]]" and xi = "1 / 10 ^ 6" and pg = "[None]" and eps = 6
      and s = "(\<lparr>shape = [1, 1, 1], data = [1]\<rparr>, [None])"]
  obtain d0 pg0 d' pg' where
    r0: "vat_rounds (1 - 1) demo_engine () (TensorBatch demo_tensor) [[0, 0]] (1 / 10 ^ 6) None
           False (\<lparr>shape = [1, 1, 1], data = [1]\<rparr>, [None]) = Inr (d0, pg0)"
    and r1: "vat_rounds 1 demo_engine () (TensorBatch demo_tensor) [[0, 0]] (1 / 10 ^ 6) None
           False (\<lparr>shape = [1, 1, 1], data = [1]\<rparr>, [None]) = Inr (d', pg')"
    and sh: "shape d' = shape d0"
    and dt: "data d' = fst (backward demo_engine ()
               (\<lambda>r. kl_div_with_logit [[0, 0]]
                      (fwd demo_engine () (TensorBatch (tensor_add demo_tensor r))))
               (scale (1 / 10 ^ 6) (l2_normalize d0)))"
    and cl: "grads_cleared pg'"
    by blast
  from r0 have "d0 = \<lparr>shape = [1, 1, 1], data = [1]\<rparr>" by simp
  with sh dt have "shape d' = [1, 1, 1] \<and> data d' = [1]" by (simp add: demo_engine_def)
  with r1 cl show ?thesis by blast
qed

text \<open>
  C3.  When the adversarial loss has the value \<open>unsup_loss\<close> and the warmup product is not
  zero, \<open>train_step\<close> returns, and the total loss it hands to the parameter update and
  reports is \<open>sup_loss + lambda_u * unsup_loss * warmup + lambda_ent * entropy_loss\<close>, with
  the cross-entropy of the labelled batch, the clipped warmup coefficient and the entropy
  of the unlabelled predictions; at iteration 0 the entropy term is still there in full.
\<close>

theorem train_step_total_loss:
  assumes "unsup_warm_up self * real_of_int (vat.num_train_iter self) \<noteq> 0"
    and "(ul_x_embed, ul_y) =
           (if vat_embed self
            then (case fwd_embed E (model self) x_ulb_w of (e, y) \<Rightarrow> (Some e, y))
            else (None, fwd E (model self) x_ulb_w))"
    and "vat_loss E (model self) (param_grads self) x_ulb_w ul_y (1 / 10 ^ 6) (vat_eps self) 1
           ul_x_embed (vat_embed self) = Inr (unsup_loss, pg)"
  shows "\<exists>tb_dict total_loss self'.
           train_step E self x_lb y_lb x_ulb_w = Inr (tb_dict, total_loss, self')
         \<and> total_loss =
             ce_loss E (fwd E (model self) x_lb) y_lb
             + lambda_u self * unsup_loss
                 * np_clip (real_of_int (it self)
                            / (unsup_warm_up self * real_of_int (vat.num_train_iter self))) 0 1
             + lambda_ent self * entropy_loss ul_y
         \<and> map_of tb_dict ''train/total_loss'' = Some total_loss
         \<and> (it self = 0 \<longrightarrow>
              total_loss = ce_loss E (fwd E (model self) x_lb) y_lb
                           + lambda_ent self * entropy_loss ul_y)"
proof -
  have w: "unsup_warmup_coef (unsup_warm_up self) (vat.num_train_iter self) (it self)
           = Inr (np_clip (real_of_int (it self)
                   / (unsup_warm_up self * real_of_int (vat.num_train_iter self))) 0 1)"
    using assms(1) by (simp add: unsup_warmup_coef_def)
  have z: "np_clip 0 0 1 = 0" by (simp add: np_clip_def)
  show ?thesis
    unfolding train_step_def Let_def
    using assms(3) w z by (simp add: assms(2) [symmetric])
qed

theorem train_step_total_loss_witness:
  "\<exists>tb_dict self'.
      train_step demo_engine demo_vat (TensorBatch demo_tensor) [0] (TensorBatch demo_tensor)
        = Inr (tb_dict, 1 + 6 / 100 * entropy_loss [[0, 0]], self')
    \<and> map_of tb_dict ''train/total_loss'' = Some (1 + 6 / 100 * entropy_loss [[0, 0]])"
proof -
  have a1: "unsup_warm_up demo_vat * real_of_int (vat.num_train_iter demo_vat) \<noteq> 0"
    by (simp add: demo_vat_def)
  have a2: "(None, [[0, 0]]) =
           (if vat_embed demo_vat
            then (case fwd_embed demo_engine (model demo_vat) (TensorBatch demo_tensor) of
                    (e, y) \<Rightarrow> (Some e, y))
            else (None, fwd demo_engine (model demo_vat) (TensorBatch demo_tensor)))"
    by (simp add: demo_vat_def demo_engine_def)
  have kl0: "kl_div_with_logit [[0, 0]] [[0, 0]] = 0"
    by (simp add: kl_div_with_logit_def Let_def)
  have a3: "vat_loss demo_engine (model demo_vat) (param_grads demo_vat)
              (TensorBatch demo_tensor) [[0, 0]] (1 / 10 ^ 6) (vat_eps demo_vat) 1 None
              (vat_embed demo_vat) = Inr (0, [Some [0, 0]])"
    by (simp add: vat_loss_def target_size_def probe_input_def vat_round_def demo_vat_def
        demo_engine_def demo_tensor_def Let_def kl0 accumulate_grads_def zero_grad_def)
  from train_step_total_loss[OF a1 a2 a3, of "TensorBatch demo_tensor" "[0]"]
  show ?thesis by (auto simp: demo_vat_def demo_engine_def)
qed

section \<open>Properties of the launcher\<close>

lemma extends_refl: "extends w w"
  by (simp add: extends_def)

lemma extends_emit: "extends w w' \<Longrightarrow> extends w (emit ev w')"
  by (auto simp: extends_def emit_def)

lemma extends_trans: "extends w w' \<Longrightarrow> extends w' w'' \<Longrightarrow> extends w w''"
  by (auto simp: extends_def)

lemma extends_emit_self: "extends w (emit ev w)"
  by (simp add: extends_emit extends_refl)



lemma trace_emit: "trace (emit ev w) = trace w @ [ev]"
  by (simp add: emit_def)

lemma fs_emit: "fs (emit ev w) = fs w"
  by (simp add: emit_def)

lemma worker_group_extends: "extends w (snd (worker_group E g n a w))"
  by (auto simp: worker_group_def Let_def extends_emit extends_refl
      split: option.splits sum.splits)


lemma worker_logger_extends: "extends w (snd (worker_logger n a w))"
  by (simp add: worker_logger_def Let_def extends_emit extends_refl)


lemma worker_dataset_extends: "extends w (snd (worker_dataset E a w))"
  by (simp add: worker_dataset_def Let_def extends_emit extends_refl)


lemma worker_init_extends: "extends w (snd (worker_init E g n a w))"
proof (cases "worker_group E g n (a\<lparr>gpu := g\<rparr>) w")
  case (Pair r1 w1)
  have w1: "extends w w1" using worker_group_extends[of w E g n "a\<lparr>gpu := g\<rparr>"] Pair by simp
  show ?thesis
  proof (cases r1)
    case (Inl e)
    then show ?thesis using Pair w1 by (simp add: worker_init_def)
  next
    case (Inr a1)
    show ?thesis
    proof (cases "worker_logger n a1 w1")
      case p2: (Pair r2 w2)
      have w2: "extends w w2"
        using w1 worker_logger_extends[of w1 n a1] p2 by (auto intro: extends_trans)
      show ?thesis
      proof (cases r2)
        case (Inl e)
        then show ?thesis using Pair Inr p2 w2 by (simp add: worker_init_def)
      next
        case r2: (Inr u)
        have "extends w (snd (worker_dataset E a1 w2))"
          using w2 worker_dataset_extends by (rule extends_trans)
        then show ?thesis using Pair Inr p2 r2 by (simp add: worker_init_def split_def)
      qed
    qed
  qed
qed


lemma worker_devices_extends: "extends w (snd (worker_devices E n a w))"
  by (auto simp: worker_devices_def Let_def extends_emit extends_refl
      split: option.splits sum.splits prod.splits)


lemma worker_loaders_extends: "extends w (worker_loaders E a w)"
  by (simp add: worker_loaders_def Let_def extends_emit extends_refl)

lemma worker_loaders_events:
  "DataLoader ''train_lb'' (batch_size a) (num_workers a) \<in> set (trace (worker_loaders E a w))
   \<and> DataLoader ''train_ulb'' (batch_size a * uratio a) (2 * num_workers a)
       \<in> set (trace (worker_loaders E a w))"
  by (simp add: worker_loaders_def Let_def trace_emit)

lemma worker_resume_extends: "extends w (snd (worker_resume E st w))"
  by (auto simp: worker_resume_def Let_def extends_emit extends_refl
      split: option.splits sum.splits prod.splits)

lemma foldl_emit_extends:
  "extends w v \<Longrightarrow> extends w (foldl (\<lambda>v item. emit (f item) v) v xs)"
  by (induction xs arbitrary: v) (auto simp: extends_emit)

lemma worker_run_extends: "extends w (snd (worker_run E n st w))"
  by (auto simp: worker_run_def Let_def extends_emit extends_refl foldl_emit_extends
      split: option.splits sum.splits prod.splits)


lemma main_worker_extends: "extends w (snd (main_worker E g n a w))"
proof -
  have e1: "extends w (snd (worker_init E g n a w))" by (rule worker_init_extends)
  show ?thesis
  proof (cases "worker_init E g n a w")
    case (Pair r1 w1)
    note p1 = this
    have w1: "extends w w1" using e1 p1 by simp
    show ?thesis
    proof (cases r1)
      case (Inl e)
      then show ?thesis using p1 w1 by (simp add: main_worker_def)
    next
      case (Inr st1)
      obtain a1 alg where st1: "st1 = (a1, alg)" by (cases st1)
      show ?thesis
      proof (cases "worker_devices E n a1 w1")
        case (Pair r2 w2)
        have w2: "extends w1 w2" using worker_devices_extends[of w1 E n a1] Pair by simp
        show ?thesis
        proof (cases r2)
          case (Inl e)
          then show ?thesis using p1 Inr st1 Pair w1 w2
            by (simp add: main_worker_def) (rule extends_trans)
        next
          case (Inr a2)
          note r2 = this
          let ?wl = "worker_loaders E a2 w2"
          have wl: "extends w ?wl"
            using w1 w2 worker_loaders_extends[of w2 E a2] by (blast intro: extends_trans)
          show ?thesis
          proof (cases "worker_resume E (a2, alg) ?wl")
            case (Pair r3 w3)
            have w3: "extends w w3"
              using wl worker_resume_extends[of ?wl E "(a2, alg)"] Pair
              by (auto intro: extends_trans)
            show ?thesis
            proof (cases r3)
              case (Inl e)
              then show ?thesis
                using p1 \<open>r1 = Inr st1\<close> st1 \<open>worker_devices E n a1 w1 = (r2, w2)\<close> r2 Pair w3
                by (simp add: main_worker_def)
            next
              case (Inr st3)
              have "extends w (snd (worker_run E n st3 w3))"
                using w3 worker_run_extends[of w3 E n st3] by (rule extends_trans)
              then show ?thesis
                using p1 \<open>r1 = Inr st1\<close> st1 \<open>worker_devices E n a1 w1 = (r2, w2)\<close> r2 Pair Inr
                by (simp add: main_worker_def)
            qed
          qed
        qed
      qed
    qed
  qed
qed

lemma prepare_overwrite:
  assumes "fs w (path_join (save_dir a) (save_name a)) = Some Dir"
    and "overwrite a" and "\<not> resume a"
  shows "prepare_save_path a w =
           (Inr (), emit (Rmtree (path_join (save_dir a) (save_name a)))
              (w\<lparr>fs := (\<lambda>q. if in_tree (path_join (save_dir a) (save_name a)) q then None
                              else fs w q)\<rparr>))"
  using assms
  by (simp add: prepare_save_path_def Let_def path_exists_def rmtree_def fs_emit in_tree_def)

lemma prepare_no_overwrite:
  assumes "path_exists w (path_join (save_dir a) (save_name a))" and "\<not> overwrite a"
  shows "prepare_save_path a w =
           (Inl (PyException (''already existing model: ''
                   @ path_join (save_dir a) (save_name a))), w)"
  using assms by (simp add: prepare_save_path_def Let_def)

lemma prepare_errors_overwrite:
  assumes "overwrite a" and "prepare_save_path a w = (Inl e, w')"
  shows "e = FileNotFoundError \<or> e = NotADirectoryError"
  using assms
  by (auto simp: prepare_save_path_def Let_def rmtree_def
      split: if_splits option.splits node.splits prod.splits sum.splits)

lemma check_resume_errors:
  assumes "check_resume E a = Inl e"
  shows "e \<noteq> PyException (''already existing model: '' @ s)"
  using assms by (auto simp: check_resume_def split: if_splits option.splits)

lemma configure_extends: "extends w (snd (configure E a w))"
  by (auto simp: configure_def Let_def extends_emit extends_refl split: sum.splits)

lemma environ_int_errors:
  "environ_int E name = Inl e \<Longrightarrow> e = KeyError name \<or> e = ValueError"
  by (auto simp: environ_int_def split: option.splits)

lemma configure_errors:
  assumes "configure E a w = (Inl e, w')"
  shows "e \<noteq> PyException s"
  using assms
  by (auto simp: configure_def Let_def split: sum.splits if_splits dest: environ_int_errors)

lemma worker_rank_errors:
  assumes "worker_rank E g n a = Inl e"
  shows "e \<noteq> PyException s"
  using assms
  by (auto simp: worker_rank_def split: sum.splits if_splits gpu_arg.splits
      dest: environ_int_errors)

lemma worker_group_errors:
  assumes "worker_group E g n a w = (Inl e, w')"
  shows "e \<noteq> PyException s"
  using assms
  by (auto simp: worker_group_def Let_def split: option.splits sum.splits if_splits
      dest: worker_rank_errors)

lemma worker_init_errors:
  assumes "worker_init E g n a w = (Inl e, w')"
  shows "e \<noteq> PyException s"
  using assms
  by (auto simp: worker_init_def worker_logger_def Let_def
      split: prod.splits sum.splits if_splits dest: worker_group_errors)

lemma worker_devices_errors:
  assumes "worker_devices E n a w = (Inl e, w')"
  shows "e \<noteq> PyException (''already existing model: '' @ s)"
  using assms
  by (auto simp: worker_devices_def int_truediv_def Let_def
      split: prod.splits sum.splits if_splits)

lemma worker_resume_errors:
  assumes "worker_resume E st w = (Inl e, w')"
  shows "e \<noteq> PyException s"
  using assms
  by (auto simp: worker_resume_def split: prod.splits option.splits if_splits)

lemma worker_run_errors:
  assumes "worker_run E n st w = (Inl e, w')"
  shows "e \<noteq> PyException s"
  using assms
  by (auto simp: worker_run_def Let_def split_def split: if_splits)

lemma main_worker_errors:
  assumes "main_worker E g n a w = (Inl e, w')"
  shows "e \<noteq> PyException (''already existing model: '' @ s)"
  using assms
  by (auto simp: main_worker_def split: prod.splits sum.splits
      dest: worker_init_errors worker_devices_errors worker_resume_errors worker_run_errors)

lemma check_divisible_ok:
  "epoch a \<noteq> 0 \<Longrightarrow> epoch a dvd num_train_iter a \<Longrightarrow> check_divisible a = Inr ()"
  by (simp add: check_divisible_def mod_eq_0_iff_dvd)

lemma main_after_prepare:
  assumes "check_divisible a = Inr ()" and "prepare_save_path a w = (Inr (), w1)"
  shows "extends w1 (snd (main E a w))"
proof (cases "check_resume E a")
  case (Inl e)
  then show ?thesis using assms by (simp add: main_def extends_refl)
next
  case (Inr u)
  show ?thesis
  proof (cases "configure E a w1")
    case (Pair r2 w2)
    have w2: "extends w1 w2" using configure_extends[of w1 E a] Pair by simp
    show ?thesis
    proof (cases r2)
      case (Inl e)
      then show ?thesis using assms Inr Pair w2 by (simp add: main_def)
    next
      case r2: (Inr a1)
      let ?w3 = "emit DeviceCount w2"
      have w3: "extends w1 ?w3" using w2 by (rule extends_emit)
      show ?thesis
      proof (cases "multiprocessing_distributed a1")
        case True
        then show ?thesis using assms Inr Pair r2 w3
          by (simp add: main_def Let_def extends_emit)
      next
        case False
        have e: "extends w1 (snd (main_worker E (gpu a1) (device_count E) a1 ?w3))"
          using w3 main_worker_extends by (rule extends_trans)
        obtain r4 w4 where mw: "main_worker E (gpu a1) (device_count E) a1 ?w3 = (r4, w4)"
          by (cases "main_worker E (gpu a1) (device_count E) a1 ?w3")
        have "snd (main E a w) = w4"
          using assms Inr Pair r2 False mw
          by (cases r4) (simp_all add: main_def Let_def)
        then show ?thesis using e mw by simp
      qed
    qed
  qed
qed

lemma main_never_existing_model:
  assumes "overwrite a"
  shows "fst (main E a w) \<noteq> Inl (PyException (''already existing model: '' @ s))"
proof
  assume m: "fst (main E a w) = Inl (PyException (''already existing model: '' @ s))"
  let ?e = "PyException (''already existing model: '' @ s)"
  show False
  proof (cases "check_divisible a")
    case (Inl e)
    then show False using m
      by (auto simp: main_def check_divisible_def split: if_splits)
  next
    case d: (Inr u)
    show False
    proof (cases "prepare_save_path a w")
      case p: (Pair r1 w1)
      show False
      proof (cases r1)
        case (Inl e)
        then show False using m d p prepare_errors_overwrite[OF assms, of w e w1]
          by (auto simp: main_def)
      next
        case r1: (Inr u1)
        show False
        proof (cases "check_resume E a")
          case (Inl e)
          then show False using m d p r1 check_resume_errors[of E a e s]
            by (auto simp: main_def)
        next
          case c: (Inr u2)
          show False
          proof (cases "configure E a w1")
            case q: (Pair r2 w2)
            show False
            proof (cases r2)
              case (Inl e)
              then show False using m d p r1 c q configure_errors[of E a w1 e w2]
                by (auto simp: main_def)
            next
              case r2: (Inr a1)
              show False using m d p r1 c q r2
                by (auto simp: main_def Let_def split: if_splits prod.splits sum.splits
                    dest: main_worker_errors)
            qed
          qed
        qed
      qed
    qed
  qed
qed




text \<open>
  C7.  When \<open>num_train_iter\<close> is not divisible by \<open>epoch\<close>, \<open>main\<close> ends with an error and
  the world is as it was: no file touched, no event (no device query, no process) before
  it.  The error is the assertion's, or \<open>ZeroDivisionError\<close> when \<open>epoch\<close> is 0.
\<close>

theorem main_indivisible_budget:
  assumes "\<not> epoch a dvd num_train_iter a"
  shows "main E a w =
           (Inl (if epoch a = 0 then ZeroDivisionError
                 else AssertionError
                        ''# total training iter. {} is not divisible by # epochs {}''
                        [num_train_iter a, epoch a]), w)"
  using assms by (simp add: main_def check_divisible_def mod_eq_0_iff_dvd)

theorem main_indivisible_budget_witness:
  "main demo_env (parser_defaults\<lparr>num_train_iter := 100, epoch := 7\<rparr>) demo_world =
     (Inl (AssertionError ''# total training iter. {} is not divisible by # epochs {}''
             [100, 7]), demo_world)"
proof -
  have h: "\<not> epoch (parser_defaults\<lparr>num_train_iter := 100, epoch := 7\<rparr>)
             dvd num_train_iter (parser_defaults\<lparr>num_train_iter := 100, epoch := 7\<rparr>)"
    by simp
  from main_indivisible_budget[OF h, of demo_env demo_world] show ?thesis by simp
qed

text \<open>
  C10.  When the save path exists as \<open>main\<close> starts: without \<open>overwrite\<close>, \<open>main\<close> raises and
  the world is unchanged (the error is \<open>already existing model\<close> once the divisibility check
  has passed); with \<open>overwrite\<close>, without \<open>resume\<close>, and the path a directory, the first
  event of \<open>main\<close> is the removal of that tree, before any worker starts, and afterwards
  exactly the paths in that tree are gone; the parser's defaults have \<open>overwrite\<close> set and
  \<open>resume\<close> unset; and with \<open>overwrite\<close> set \<open>main\<close> never ends with the
  \<open>already existing model\<close> error.
\<close>

theorem main_existing_save_path:
  assumes "path_exists w (path_join (save_dir a) (save_name a))"
  shows "(\<not> overwrite a \<longrightarrow>
            (\<exists>e. main E a w = (Inl e, w))
          \<and> (epoch a \<noteq> 0 \<and> epoch a dvd num_train_iter a \<longrightarrow>
               main E a w = (Inl (PyException (''already existing model: ''
                                    @ path_join (save_dir a) (save_name a))), w)))
       \<and> (overwrite a \<and> \<not> resume a
          \<and> fs w (path_join (save_dir a) (save_name a)) = Some Dir
          \<and> epoch a \<noteq> 0 \<and> epoch a dvd num_train_iter a \<longrightarrow>
            (\<forall>q. fs (snd (main E a w)) q
                   = (if in_tree (path_join (save_dir a) (save_name a)) q then None else fs w q))
          \<and> (\<exists>rest. trace (snd (main E a w))
                       = trace w @ Rmtree (path_join (save_dir a) (save_name a)) # rest))
       \<and> overwrite parser_defaults \<and> \<not> resume parser_defaults
       \<and> (overwrite a \<longrightarrow>
            (\<forall>s. fst (main E a w) \<noteq> Inl (PyException (''already existing model: '' @ s))))"
proof -
  let ?p = "path_join (save_dir a) (save_name a)"
  have b1: "\<exists>e. main E a w = (Inl e, w)" if "\<not> overwrite a"
    using prepare_no_overwrite[OF assms that]
    by (cases "check_divisible a") (simp_all add: main_def)
  have b2: "main E a w = (Inl (PyException (''already existing model: '' @ ?p)), w)"
    if "\<not> overwrite a" "epoch a \<noteq> 0" "epoch a dvd num_train_iter a"
    using prepare_no_overwrite[OF assms that(1)] check_divisible_ok[OF that(2,3)]
    by (simp add: main_def)
  have a1: "(\<forall>q. fs (snd (main E a w)) q = (if in_tree ?p q then None else fs w q))
          \<and> (\<exists>rest. trace (snd (main E a w)) = trace w @ Rmtree ?p # rest)"
    if "overwrite a" "\<not> resume a" "fs w ?p = Some Dir" "epoch a \<noteq> 0"
      "epoch a dvd num_train_iter a"
  proof -
    let ?w1 = "emit (Rmtree ?p) (w\<lparr>fs := (\<lambda>q. if in_tree ?p q then None else fs w q)\<rparr>)"
    have "extends ?w1 (snd (main E a w))"
      using check_divisible_ok[OF that(4,5)] prepare_overwrite[OF that(3,1,2)]
      by (rule main_after_prepare)
    then show ?thesis by (auto simp: extends_def emit_def)
  qed
  have c1: "overwrite parser_defaults \<and> \<not> resume parser_defaults"
    by (simp add: parser_defaults_def)
  from b1 b2 a1 c1 main_never_existing_model[of a E w] show ?thesis by blast
qed

theorem main_existing_save_path_witness:
  "main demo_env (parser_defaults\<lparr>overwrite := False\<rparr>) demo_world
     = (Inl (PyException ''already existing model: ./saved_models/fixmatch''), demo_world)
   \<and> fs (snd (main demo_env parser_defaults demo_world))
        ''./saved_models/fixmatch/latest_model.pth'' = None
   \<and> fs (snd (main demo_env parser_defaults demo_world)) ''bad.pth'' = Some File"
proof -
  have pj: "path_join (save_dir parser_defaults) (save_name parser_defaults)
            = ''./saved_models/fixmatch''"
    by (simp add: parser_defaults_def path_join_def)
  have ex: "path_exists demo_world ''./saved_models/fixmatch''"
    by (simp add: path_exists_def demo_world_def)
  have dir: "fs demo_world ''./saved_models/fixmatch'' = Some Dir"
    by (simp add: demo_world_def)
  have dv: "epoch parser_defaults \<noteq> 0 \<and> epoch parser_defaults dvd num_train_iter parser_defaults"
    by (simp add: parser_defaults_def)
  have ow: "overwrite parser_defaults \<and> \<not> resume parser_defaults"
    by (simp add: parser_defaults_def)
  have t1: "in_tree ''./saved_models/fixmatch'' ''./saved_models/fixmatch/latest_model.pth''"
    by (simp add: in_tree_def)
  have t2: "\<not> in_tree ''./saved_models/fixmatch'' ''bad.pth''"
    by (simp add: in_tree_def)
  have f2: "fs demo_world ''bad.pth'' = Some File" by (simp add: demo_world_def)
  have h1: "path_exists demo_world
              (path_join (save_dir (parser_defaults\<lparr>overwrite := False\<rparr>))
                         (save_name (parser_defaults\<lparr>overwrite := False\<rparr>)))"
    using ex pj by simp
  have h2: "path_exists demo_world
              (path_join (save_dir parser_defaults) (save_name parser_defaults))"
    using ex pj by simp
  from main_existing_save_path[OF h1, of demo_env]
  have r1: "main demo_env (parser_defaults\<lparr>overwrite := False\<rparr>) demo_world
     = (Inl (PyException ''already existing model: ./saved_models/fixmatch''), demo_world)"
    using pj dv by (simp add: ow)
  from main_existing_save_path[OF h2, of demo_env]
  have "\<forall>q. fs (snd (main demo_env parser_defaults demo_world)) q
              = (if in_tree ''./saved_models/fixmatch'' q then None else fs demo_world q)"
    using pj dv ow dir by simp
  then show ?thesis using r1 t1 t2 f2 by simp
qed




text \<open>
  C9.  A distributed worker on device 0 of a node with two devices, configured with a
  batch size of 8 and 4 workers: the batch size is halved, the number of workers is not.
  The labelled loader gets 4 workers, the unlabelled one 8, the evaluation loader 4.
\<close>

theorem main_worker_loader_workers_not_divided:
  "trace (snd (main_worker demo_env (GpuId 0) 2 dist_args demo_world)) =
     [Seed 1, InitProcessGroup ''nccl'' ''tcp://127.0.0.1:11111'' 2 0,
      TBLogCreate ''./saved_models/fixmatch'',
      GetLogger ''fixmatch'' ''./saved_models/fixmatch'' ''INFO'',
      LogInfo ''Use GPU: {} for training'' [AGpu (GpuId 0)], GetDataset,
      LogInfo ''unlabeled data number: {}, labeled data number {}'' [AInt 1000, AInt 40],
      Barrier, GetAlgorithm,
      LogInfo ''Number of Trainable Params: {}'' [AOpaque], SetOptimizer,
      SetDevice (GpuId 0), ToCuda (GpuId 0), WrapDistributed (GpuId 0) False,
      LogInfo ''model_arch: {}'' [AOpaque], LogInfo ''Arguments: {}'' [AOpaque],
      DataLoader ''train_lb'' 4 4, DataLoader ''train_ulb'' 4 8,
      DataLoader ''eval'' 1024 4, SetDataLoader,
      LogInfo ''Create train and test data loaders'' [],
      LogInfo ''Resume load path {} does not exist'' [ANone],
      LogInfo ''Model training'' [], Train 0,
      LogInfo ''Model result - {} : {}'' [AStr ''eval/top-1-acc'', AOpaque],
      SaveModel ''latest_model.pth'' ''./saved_models/fixmatch'',
      LogWarning ''GPU {} training is FINISHED'' [AInt 0]]"
  by (simp add: main_worker_def worker_init_def worker_group_def worker_rank_def
      worker_logger_def worker_dataset_def worker_devices_def worker_loaders_def
      worker_resume_def worker_run_def int_truediv_def path_join_def emit_def Let_def
      dist_args_def parser_defaults_def demo_env_def demo_world_def)

end
